theory Spec2Isabelle
  imports Complex_Main
begin

section \<open>Python values\<close>

text \<open>
  The scripts \<^verbatim>\<open>scripts/add_enum_to_def.py\<close> and
  \<^verbatim>\<open>scripts/update_definitions_with_enums.py\<close> work on dynamically typed
  Python values: the cells of a table loaded from CSV, the entries they build
  (dictionaries and lists) and the definitions document loaded from YAML.
  A value is modelled up to its type and content.

  \<^item> A float is NaN, an infinity or a finite number; only \<^verbatim>\<open>math.isnan\<close> is ever
    asked of it.
  \<^item> A string is a list of characters, each a code point below 256.
  \<^item> A dictionary is an association list in insertion order, its keys compared as
    Python compares them (\<open>py_eq\<close> below).
  \<^item> \<open>PObject\<close> stands for a value of any other type (a \<^verbatim>\<open>numpy.int64\<close>, a date,
    an instance of a user class), named by its class.
\<close>

datatype pyfloat = NaN | PosInf | NegInf | Finite rat

datatype pyval =
    PNone
  | PBool bool
  | PInt int
  | PFloat pyfloat
  | PStr string
  | PList "pyval list"
  | PTuple "pyval list"
  | PSet "pyval list"
  | PDict "(pyval \<times> pyval) list"
  | PObject string

type_synonym pydict = "(pyval \<times> pyval) list"

text \<open>
  Python's \<^verbatim>\<open>==\<close>, with which a dictionary finds a key and pandas compares a cell.
  Numbers are equal when their values are, whatever their types: \<^verbatim>\<open>True\<close>, \<^verbatim>\<open>1\<close> and
  \<^verbatim>\<open>1.0\<close> are equal (and hash alike, so they are one dictionary key). Lists and tuples
  are equal when their elements are. Everything else is equal when type and content
  are. \<open>numeric_form\<close> writes every number as the float of its value, so that two values
  are equal for Python exactly when their forms are the same.

  Two points are left to the callers. NaN is not equal to itself for \<^verbatim>\<open>==\<close>, though a
  dictionary finds a NaN key by identity: here NaN has the form NaN, and the comparison
  of cells checks for missing values first. Sets and dictionaries, which Python
  compares without regard to order, are compared in order here; they are neither keys
  nor cells.
\<close>

fun numeric_form :: "pyval \<Rightarrow> pyval" where
  "numeric_form (PBool b) = PFloat (Finite (if b then 1 else 0))"
| "numeric_form (PInt i) = PFloat (Finite (of_int i))"
| "numeric_form (PList xs) = PList (map numeric_form xs)"
| "numeric_form (PTuple xs) = PTuple (map numeric_form xs)"
| "numeric_form v = v"

definition py_eq :: "pyval \<Rightarrow> pyval \<Rightarrow> bool" where
  "py_eq a b = (numeric_form a = numeric_form b)"

text \<open>\<^verbatim>\<open>d[k] = v\<close>: an existing key (one equal to \<open>k\<close>) keeps its position and its own
  key object and gets the new value, a new key goes to the end.\<close>

fun dict_set :: "pydict \<Rightarrow> pyval \<Rightarrow> pyval \<Rightarrow> pydict" where
  "dict_set [] k v = [(k, v)]"
| "dict_set ((k', v') # kvs) k v =
     (if py_eq k' k then (k', v) # kvs else (k', v') # dict_set kvs k v)"

text \<open>\<^verbatim>\<open>d.get(k)\<close>: the value at the key equal to \<open>k\<close>, \<open>None\<close> when there is none.\<close>

fun dict_lookup :: "pydict \<Rightarrow> pyval \<Rightarrow> pyval option" where
  "dict_lookup [] k = None"
| "dict_lookup ((k', v') # kvs) k = (if py_eq k' k then Some v' else dict_lookup kvs k)"

text \<open>The same on a value: \<open>None\<close> as well when the value is no dictionary.\<close>

fun dict_get :: "pyval \<Rightarrow> pyval \<Rightarrow> pyval option" where
  "dict_get (PDict kvs) k = dict_lookup kvs k"
| "dict_get _ k = None"

section \<open>Strings: \<^verbatim>\<open>str.strip\<close> and \<^verbatim>\<open>str.lower\<close>\<close>

text \<open>Python's \<^verbatim>\<open>str.isspace\<close> on the code points below 256: tab, line feed, vertical
  tab, form feed, carriage return, the four separators 28..31, space, NEL (133) and the
  no-break space (160).\<close>

definition isspace :: "char \<Rightarrow> bool" where
  "isspace c = (of_char c \<in> {9, 10, 11, 12, 13, 28, 29, 30, 31, 32, 133, 160 :: nat})"

definition strip :: "string \<Rightarrow> string" where
  "strip s = rev (dropWhile isspace (rev (dropWhile isspace s)))"

text \<open>\<^verbatim>\<open>str.lower\<close> on the code points below 256: \<open>A\<close>..\<open>Z\<close> and the Latin-1 capitals
  192..222 (without the multiplication sign 215) move up by 32.\<close>

definition lower_char :: "char \<Rightarrow> char" where
  "lower_char c =
     (let n = (of_char c :: nat)
      in if (65 \<le> n \<and> n \<le> 90) \<or> (192 \<le> n \<and> n \<le> 222 \<and> n \<noteq> 215)
         then char_of (n + 32) else c)"

definition lower :: "string \<Rightarrow> string" where
  "lower s = map lower_char s"

section \<open>\<^verbatim>\<open>check_null\<close>\<close>

definition null_strs :: "string list" where
  "null_strs = ['''', ''null'', ''none'', ''nan'', ''n/a'', ''na'',
                ''not available'', ''not applicable'', ''missing'']"

text \<open>\<^verbatim>\<open>isinstance(value, float) and math.isnan(value)\<close>\<close>

fun is_float_nan :: "pyval \<Rightarrow> bool" where
  "is_float_nan (PFloat NaN) = True"
| "is_float_nan _ = False"

text \<open>\<^verbatim>\<open>isinstance(value, str)\<close> and \<^verbatim>\<open>value.strip().lower() in null_strs\<close>\<close>

fun is_null_str :: "pyval \<Rightarrow> bool" where
  "is_null_str (PStr s) = (lower (strip s) \<in> set null_strs)"
| "is_null_str _ = False"

text \<open>\<^verbatim>\<open>isinstance(value, (list, tuple, set, dict))\<close> and \<^verbatim>\<open>len(value) == 0\<close>\<close>

fun is_empty_collection :: "pyval \<Rightarrow> bool" where
  "is_empty_collection (PList xs) = (length xs = 0)"
| "is_empty_collection (PTuple xs) = (length xs = 0)"
| "is_empty_collection (PSet xs) = (length xs = 0)"
| "is_empty_collection (PDict kvs) = (length kvs = 0)"
| "is_empty_collection _ = False"

text \<open>The function is the same in both scripts, but for the logging. Its four checks
  run in the source's order; none of them can raise on a value of the model, so the
  result is a plain truth value.\<close>

definition check_null :: "pyval \<Rightarrow> bool" where
  "check_null v =
     (if v = PNone then True
      else if is_float_nan v then True
      else if is_null_str v then True
      else if is_empty_collection v then True
      else False)"

section \<open>The enum table\<close>

text \<open>
  The table is a \<^verbatim>\<open>pandas.DataFrame\<close> with the columns \<^verbatim>\<open>type_name\<close>, \<^verbatim>\<open>enum\<close>,
  \<^verbatim>\<open>enum_definition\<close>, \<^verbatim>\<open>source\<close> and \<^verbatim>\<open>term_id\<close> (\<^verbatim>\<open>validate_csv_columns\<close> refuses a
  table without them before any row is read): a list of rows in file order. A cell holds
  what a CSV load or a caller puts there: a string, a number, a truth value, or a
  missing marker (\<^verbatim>\<open>None\<close>, or the float NaN that \<^verbatim>\<open>read_csv\<close> writes for an empty
  cell).
\<close>

record row =
  type_name :: pyval
  enum_col :: pyval
  enum_definition :: pyval
  source :: pyval
  term_id :: pyval

type_synonym dataframe = "row list"

text \<open>What pandas counts as missing in a comparison: \<^verbatim>\<open>None\<close> and NaN.\<close>

fun is_na :: "pyval \<Rightarrow> bool" where
  "is_na PNone = True"
| "is_na (PFloat NaN) = True"
| "is_na _ = False"

text \<open>
  One element of \<^verbatim>\<open>df[col] == value\<close>. A missing value on either side compares
  unequal, to itself as well (NaN is not equal to NaN); any other pair is compared by
  Python's \<^verbatim>\<open>==\<close>. (For a column of numbers pandas compares through numpy, which
  differs from \<^verbatim>\<open>==\<close> only where an integer beyond \<open>2\<^sup>5\<^sup>3\<close> meets a float; the
  functions below are given strings, or values taken from the column itself.)
\<close>

definition cell_eq :: "pyval \<Rightarrow> pyval \<Rightarrow> bool" where
  "cell_eq x v = (\<not> is_na x \<and> \<not> is_na v \<and> py_eq x v)"

datatype py_error =
    ValueError_enum_not_found pyval
  | IndexError_term_not_found pyval pyval
  | IndexError_out_of_bounds

section \<open>\<^verbatim>\<open>add_enum_to_def.py\<close>: extraction\<close>

text \<open>\<^verbatim>\<open>df[df['type_name'] == enum_name]\<close>, and \<^verbatim>\<open>ValueError\<close> when no row is left.\<close>

definition pull_enum :: "dataframe \<Rightarrow> pyval \<Rightarrow> py_error + dataframe" where
  "pull_enum df enum_name =
     (let result_df = filter (\<lambda>r. cell_eq (type_name r) enum_name) df
      in if result_df = [] then Inl (ValueError_enum_not_found enum_name)
         else Inr result_df)"

text \<open>\<^verbatim>\<open>df[colname].tolist()\<close>. The column is given by its selector; the source's
  \<^verbatim>\<open>KeyError\<close> for an unknown column name cannot occur on the five columns of a row.\<close>

definition col_to_list :: "dataframe \<Rightarrow> (row \<Rightarrow> pyval) \<Rightarrow> pyval list" where
  "col_to_list df col = map col df"

definition get_enum_list :: "dataframe \<Rightarrow> pyval \<Rightarrow> py_error + pyval list" where
  "get_enum_list df enum_name =
     (case pull_enum df enum_name of
        Inl e \<Rightarrow> Inl e
      | Inr result_df \<Rightarrow> Inr (col_to_list result_df enum_col))"

text \<open>The three lookups differ in the column they read only: the rows of the type,
  of them the rows of the term, \<^verbatim>\<open>IndexError\<close> when there is none, else
  \<^verbatim>\<open>.iloc[0]\<close> of the column.\<close>

definition get_enum_field ::
  "(row \<Rightarrow> pyval) \<Rightarrow> dataframe \<Rightarrow> pyval \<Rightarrow> pyval \<Rightarrow> py_error + pyval" where
  "get_enum_field col df enum_name enum_term =
     (case pull_enum df enum_name of
        Inl e \<Rightarrow> Inl e
      | Inr result_df \<Rightarrow>
          (case filter (\<lambda>r. cell_eq (enum_col r) enum_term) result_df of
             [] \<Rightarrow> Inl (IndexError_term_not_found enum_term enum_name)
           | r # _ \<Rightarrow> Inr (col r)))"

definition get_enum_definition :: "dataframe \<Rightarrow> pyval \<Rightarrow> pyval \<Rightarrow> py_error + pyval" where
  "get_enum_definition = get_enum_field enum_definition"

definition get_enum_source :: "dataframe \<Rightarrow> pyval \<Rightarrow> pyval \<Rightarrow> py_error + pyval" where
  "get_enum_source = get_enum_field source"

definition get_enum_term_id :: "dataframe \<Rightarrow> pyval \<Rightarrow> pyval \<Rightarrow> py_error + pyval" where
  "get_enum_term_id = get_enum_field term_id"

section \<open>\<^verbatim>\<open>add_enum_to_def.py\<close>: building an entry\<close>

text \<open>
  One of the three guarded blocks of the loop body:
  \<^verbatim>\<open>try: x = get(...); if not check_null(x): enumdef[key] = x\<close>
  \<^verbatim>\<open>except Exception: logger.warning(...)\<close>.
  An exception of the lookup leaves the record as it was (the warning is not modelled).
\<close>

definition try_field :: "pydict \<Rightarrow> string \<Rightarrow> py_error + pyval \<Rightarrow> pydict" where
  "try_field enumdef key fetched =
     (case fetched of
        Inl e \<Rightarrow> enumdef
      | Inr x \<Rightarrow> if \<not> check_null x then dict_set enumdef (PStr key) x else enumdef)"

text \<open>The body of the loop of \<^verbatim>\<open>construct_enum_def\<close>: the record of one term.\<close>

definition enumdef_of :: "dataframe \<Rightarrow> pyval \<Rightarrow> pyval \<Rightarrow> pyval" where
  "enumdef_of df enum_name enum_term =
     (let enumdef = [(PStr ''enumeration'', enum_term)];
          enumdef = try_field enumdef ''definition'' (get_enum_definition df enum_name enum_term);
          enumdef = try_field enumdef ''source'' (get_enum_source df enum_name enum_term);
          enumdef = try_field enumdef ''term_id'' (get_enum_term_id df enum_name enum_term)
      in PDict enumdef)"

text \<open>The loop itself: \<open>enum_def_list\<close> grows by one record per term, in order.\<close>

fun enum_def_loop :: "dataframe \<Rightarrow> pyval \<Rightarrow> pyval list \<Rightarrow> pyval list \<Rightarrow> pyval list" where
  "enum_def_loop df enum_name [] enum_def_list = enum_def_list"
| "enum_def_loop df enum_name (enum_term # rest) enum_def_list =
     enum_def_loop df enum_name rest (enum_def_list @ [enumdef_of df enum_name enum_term])"

definition construct_enum_def :: "dataframe \<Rightarrow> pyval \<Rightarrow> py_error + pyval list" where
  "construct_enum_def df enum_name =
     (case get_enum_list df enum_name of
        Inl e \<Rightarrow> Inl e
      | Inr enum_term_list \<Rightarrow> Inr (enum_def_loop df enum_name enum_term_list []))"

definition construct_enum_term_yaml_entry ::
  "dataframe \<Rightarrow> pyval \<Rightarrow> pyval \<Rightarrow> py_error + pyval" where
  "construct_enum_term_yaml_entry df enum_name description =
     (case get_enum_list df enum_name of
        Inl e \<Rightarrow> Inl e
      | Inr enum_term_list \<Rightarrow>
          (case construct_enum_def df enum_name of
             Inl e \<Rightarrow> Inl e
           | Inr enum_def_list \<Rightarrow>
               Inr (PDict [(PStr ''description'', description),
                           (PStr ''enum'', PList enum_term_list),
                           (PStr ''enumDef'', PList enum_def_list)])))"

section \<open>\<^verbatim>\<open>add_enum_to_def.py\<close>: \<^verbatim>\<open>process_enums\<close>\<close>

text \<open>
  \<^verbatim>\<open>enum_df['type_name'].unique().tolist()\<close>: each value once, in the order of first
  occurrence. A value equal to one seen before is dropped; the missing markers count as
  values (all NaN cells as one). \<open>unique_from seen\<close> goes through the rest of the column.
\<close>

fun unique_from :: "pyval list \<Rightarrow> pyval list \<Rightarrow> pyval list" where
  "unique_from seen [] = seen"
| "unique_from seen (x # xs) =
     (if \<exists>y\<in>set seen. py_eq y x then unique_from seen xs else unique_from (seen @ [x]) xs)"

definition unique :: "pyval list \<Rightarrow> pyval list" where
  "unique xs = unique_from [] xs"

text \<open>
  \<^verbatim>\<open>for enum_name in set(enum_to_pull_list)\<close> visits each name of that list once (no
  two of its names are equal), in an order the language does not fix.
  \<open>set_order df names\<close> says that \<open>names\<close> is one of the orders the loop can take.
\<close>

definition set_order :: "dataframe \<Rightarrow> pyval list \<Rightarrow> bool" where
  "set_order enum_df names =
     (distinct names \<and> set names = set (unique (col_to_list enum_df type_name)))"

text \<open>
  The loop of \<^verbatim>\<open>process_enums\<close> over the names still to visit. Once an entry cannot be
  built, the exception is logged and raised again: the loop ends with the exception and
  the in-memory document as it is by then.
\<close>

fun merge_loop :: "dataframe \<Rightarrow> pyval list \<Rightarrow> pydict \<Rightarrow> py_error option \<times> pydict" where
  "merge_loop enum_df [] definitions_dict = (None, definitions_dict)"
| "merge_loop enum_df (enum_name # rest) definitions_dict =
     (case construct_enum_term_yaml_entry enum_df enum_name PNone of
        Inl e \<Rightarrow> (Some e, definitions_dict)
      | Inr entry \<Rightarrow> merge_loop enum_df rest (dict_set definitions_dict enum_name entry))"

text \<open>
  A run of \<^verbatim>\<open>process_enums\<close> from the loaded table and the loaded document on: the
  exception it ends with (if any), the in-memory document at its end, and the documents
  handed to \<^verbatim>\<open>write_yaml\<close>, in order. Validating and loading the two files comes before
  and is not part of the model; \<^verbatim>\<open>write_yaml\<close> is taken to succeed.
\<close>

record run =
  raised :: "py_error option"
  definitions_dict :: pydict
  written :: "pydict list"

definition process_enums :: "dataframe \<Rightarrow> pyval list \<Rightarrow> pydict \<Rightarrow> run" where
  "process_enums enum_df names loaded =
     (case merge_loop enum_df names loaded of
        (Some e, d) \<Rightarrow> \<lparr>raised = Some e, definitions_dict = d, written = []\<rparr>
      | (None, d) \<Rightarrow> \<lparr>raised = None, definitions_dict = d, written = [d]\<rparr>)"

section \<open>\<^verbatim>\<open>update_definitions_with_enums.py\<close>\<close>

text \<open>
  The older script defines the same functions without the checks: \<^verbatim>\<open>pull_enum\<close> returns
  an empty table where the other raises, and the lookups read \<^verbatim>\<open>.iloc[0]\<close> unguarded,
  which raises \<^verbatim>\<open>IndexError\<close> on an empty selection; \<^verbatim>\<open>construct_enum_def\<close> catches
  nothing. Its functions carry the prefix \<open>upd\<close>.
\<close>

definition upd_pull_enum :: "dataframe \<Rightarrow> pyval \<Rightarrow> dataframe" where
  "upd_pull_enum df enum_name = filter (\<lambda>r. cell_eq (type_name r) enum_name) df"

definition upd_get_enum_list :: "dataframe \<Rightarrow> pyval \<Rightarrow> pyval list" where
  "upd_get_enum_list df enum_name = col_to_list (upd_pull_enum df enum_name) enum_col"

definition upd_get_enum_field ::
  "(row \<Rightarrow> pyval) \<Rightarrow> dataframe \<Rightarrow> pyval \<Rightarrow> pyval \<Rightarrow> py_error + pyval" where
  "upd_get_enum_field col df enum_name enum_term =
     (case filter (\<lambda>r. cell_eq (enum_col r) enum_term) (upd_pull_enum df enum_name) of
        [] \<Rightarrow> Inl IndexError_out_of_bounds
      | r # _ \<Rightarrow> Inr (col r))"

definition upd_get_enum_definition :: "dataframe \<Rightarrow> pyval \<Rightarrow> pyval \<Rightarrow> py_error + pyval" where
  "upd_get_enum_definition = upd_get_enum_field enum_definition"

definition upd_get_enum_source :: "dataframe \<Rightarrow> pyval \<Rightarrow> pyval \<Rightarrow> py_error + pyval" where
  "upd_get_enum_source = upd_get_enum_field source"

definition upd_get_enum_term_id :: "dataframe \<Rightarrow> pyval \<Rightarrow> pyval \<Rightarrow> py_error + pyval" where
  "upd_get_enum_term_id = upd_get_enum_field term_id"

text \<open>\<^verbatim>\<open>if not check_null(get(...)): enumdef[key] = get(...)\<close>: the lookup is made for
  the test and again for the value; an exception of either leaves the function.\<close>

definition upd_set_field :: "pydict \<Rightarrow> string \<Rightarrow> py_error + pyval \<Rightarrow> py_error + pydict" where
  "upd_set_field enumdef key fetched =
     (case fetched of
        Inl e \<Rightarrow> Inl e
      | Inr x \<Rightarrow>
          if \<not> check_null x
          then (case fetched of Inl e \<Rightarrow> Inl e | Inr y \<Rightarrow> Inr (dict_set enumdef (PStr key) y))
          else Inr enumdef)"

definition upd_enumdef_of :: "dataframe \<Rightarrow> pyval \<Rightarrow> pyval \<Rightarrow> py_error + pyval" where
  "upd_enumdef_of df enum_name enum_term =
     (case upd_set_field [(PStr ''enumeration'', enum_term)] ''definition''
             (upd_get_enum_definition df enum_name enum_term) of
        Inl e \<Rightarrow> Inl e
      | Inr enumdef \<Rightarrow>
     (case upd_set_field enumdef ''source'' (upd_get_enum_source df enum_name enum_term) of
        Inl e \<Rightarrow> Inl e
      | Inr enumdef \<Rightarrow>
     (case upd_set_field enumdef ''term_id'' (upd_get_enum_term_id df enum_name enum_term) of
        Inl e \<Rightarrow> Inl e
      | Inr enumdef \<Rightarrow> Inr (PDict enumdef))))"

fun upd_enum_def_loop ::
  "dataframe \<Rightarrow> pyval \<Rightarrow> pyval list \<Rightarrow> pyval list \<Rightarrow> py_error + pyval list" where
  "upd_enum_def_loop df enum_name [] enum_def_list = Inr enum_def_list"
| "upd_enum_def_loop df enum_name (enum_term # rest) enum_def_list =
     (case upd_enumdef_of df enum_name enum_term of
        Inl e \<Rightarrow> Inl e
      | Inr enumdef \<Rightarrow> upd_enum_def_loop df enum_name rest (enum_def_list @ [enumdef]))"

definition upd_construct_enum_def :: "dataframe \<Rightarrow> pyval \<Rightarrow> py_error + pyval list" where
  "upd_construct_enum_def df enum_name =
     upd_enum_def_loop df enum_name (upd_get_enum_list df enum_name) []"

definition upd_construct_enum_term_yaml_entry ::
  "dataframe \<Rightarrow> pyval \<Rightarrow> pyval \<Rightarrow> py_error + pyval" where
  "upd_construct_enum_term_yaml_entry df enum_name description =
     (let enum_term_list = upd_get_enum_list df enum_name
      in case upd_construct_enum_def df enum_name of
           Inl e \<Rightarrow> Inl e
         | Inr enum_def_list \<Rightarrow>
             Inr (PDict [(PStr ''description'', description),
                         (PStr ''enum'', PList enum_term_list),
                         (PStr ''enumDef'', PList enum_def_list)]))"

section \<open>Example tables\<close>

text \<open>The table of the specification's scenario: two terms of the type \<open>Color\<close>.\<close>

definition color_table :: dataframe where
  "color_table =
     [\<lparr>type_name = PStr ''Color'', enum_col = PStr ''RED'',
       enum_definition = PStr ''red color'', source = PStr '''', term_id = PStr ''T1''\<rparr>,
      \<lparr>type_name = PStr ''Color'', enum_col = PStr ''BLUE'',
       enum_definition = PNone, source = PStr ''src2'', term_id = PStr ''''\<rparr>]"

text \<open>A table with a second type and a repeated term: \<open>RED\<close> occurs twice in \<open>Color\<close>,
  with different metadata.\<close>

definition repeat_table :: dataframe where
  "repeat_table =
     [\<lparr>type_name = PStr ''Color'', enum_col = PStr ''RED'',
       enum_definition = PStr ''red color'', source = PStr '''', term_id = PStr ''T1''\<rparr>,
      \<lparr>type_name = PStr ''Size'', enum_col = PStr ''S'',
       enum_definition = PStr ''small'', source = PStr ''N/A'', term_id = PInt 7\<rparr>,
      \<lparr>type_name = PStr ''Color'', enum_col = PStr ''BLUE'',
       enum_definition = PNone, source = PStr ''src2'', term_id = PStr ''''\<rparr>,
      \<lparr>type_name = PStr ''Color'', enum_col = PStr ''RED'',
       enum_definition = PStr ''crimson'', source = PStr ''src3'', term_id = PStr ''T9''\<rparr>]"

text \<open>What a CSV load gives for a file with an empty \<^verbatim>\<open>enum\<close> cell in its second line:
  the cell is NaN.\<close>

definition blank_term_table :: dataframe where
  "blank_term_table =
     [\<lparr>type_name = PStr ''Color'', enum_col = PStr ''RED'',
       enum_definition = PStr ''red color'', source = PStr '''', term_id = PStr ''T1''\<rparr>,
      \<lparr>type_name = PStr ''Color'', enum_col = PFloat NaN,
       enum_definition = PStr ''no term'', source = PStr ''src2'', term_id = PStr ''T2''\<rparr>]"

text \<open>The same for an empty \<^verbatim>\<open>type_name\<close> cell.\<close>

definition blank_type_table :: dataframe where
  "blank_type_table =
     [\<lparr>type_name = PStr ''Color'', enum_col = PStr ''RED'',
       enum_definition = PStr ''red color'', source = PStr '''', term_id = PStr ''T1''\<rparr>,
      \<lparr>type_name = PFloat NaN, enum_col = PStr ''BLUE'',
       enum_definition = PStr ''blue color'', source = PStr ''src2'', term_id = PStr ''T2''\<rparr>]"

text \<open>A table whose type name is a number, as a CSV load gives it for a column of
  integers, with the cells of \<^verbatim>\<open>source\<close> and \<^verbatim>\<open>term_id\<close> left empty.\<close>

definition numbered_table :: dataframe where
  "numbered_table =
     [\<lparr>type_name = PInt 1, enum_col = PStr ''low'',
       enum_definition = PStr ''lowest grade'', source = PFloat NaN, term_id = PFloat NaN\<rparr>]"

text \<open>A definitions document as a YAML load gives it for the keys \<^verbatim>\<open>true\<close> and \<^verbatim>\<open>2\<close>.\<close>

definition yes_document :: pydict where
  "yes_document = [(PBool True, PStr ''old''), (PInt 2, PStr ''other'')]"

text \<open>A definitions document with a key of its own and an old value for \<open>Color\<close>.\<close>

definition old_document :: pydict where
  "old_document =
     [(PStr ''Y'', PDict [(PStr ''type'', PStr ''string'')]),
      (PStr ''Color'', PStr ''old'')]"

section \<open>Facts about the building blocks\<close>

subsection \<open>Equality and dictionaries\<close>

lemma py_eq_refl: "py_eq a a"
  by (simp add: py_eq_def)

lemma py_eq_sym: "py_eq a b \<Longrightarrow> py_eq b a"
  by (simp add: py_eq_def)

lemma py_eq_trans: "py_eq a b \<Longrightarrow> py_eq b c \<Longrightarrow> py_eq a c"
  by (simp add: py_eq_def)

lemma py_eq_PStr: "py_eq (PStr a) (PStr b) \<longleftrightarrow> a = b"
  by (simp add: py_eq_def)

lemma is_na_numeric_form:
  "is_na a \<longleftrightarrow> numeric_form a = PNone \<or> numeric_form a = PFloat NaN"
proof (cases a)
  case (PFloat f)
  then show ?thesis by (cases f) simp_all
qed simp_all

lemma is_na_py_eq: "py_eq a b \<Longrightarrow> is_na a = is_na b"
  by (simp add: is_na_numeric_form py_eq_def)

lemma cell_eq_same_name: "py_eq n x \<Longrightarrow> cell_eq c n = cell_eq c x"
  using is_na_py_eq [of n x] by (auto simp: cell_eq_def py_eq_def)

lemma cell_eq_self: "cell_eq x x \<longleftrightarrow> \<not> is_na x"
  by (simp add: cell_eq_def py_eq_refl)

lemma cell_eq_na: "is_na v \<Longrightarrow> \<not> cell_eq x v"
  by (simp add: cell_eq_def)

lemma dict_lookup_dict_set:
  "dict_lookup (dict_set d k v) k' = (if py_eq k k' then Some v else dict_lookup d k')"
  by (induction d) (auto simp: py_eq_def)

lemma dict_lookup_same_key: "py_eq k k' \<Longrightarrow> dict_lookup d k = dict_lookup d k'"
  by (induction d) (auto simp: py_eq_def)

subsection \<open>The first row of a selection\<close>

lemma filter_first:
  "(case filter P xs of [] \<Rightarrow> a | r # _ \<Rightarrow> f r) = (case find P xs of None \<Rightarrow> a | Some r \<Rightarrow> f r)"
  by (induction xs) auto

lemma find_filter_conj: "find Q (filter P xs) = find (\<lambda>r. P r \<and> Q r) xs"
  by (induction xs) auto

subsection \<open>Extraction\<close>

lemma pull_enum_cases:
  "pull_enum df n =
     (if \<exists>r\<in>set df. cell_eq (type_name r) n
      then Inr (filter (\<lambda>r. cell_eq (type_name r) n) df)
      else Inl (ValueError_enum_not_found n))"
  by (auto simp: pull_enum_def Let_def filter_empty_conv)

lemma get_enum_field_find:
  "get_enum_field col df n t =
     (case find (\<lambda>r. cell_eq (type_name r) n \<and> cell_eq (enum_col r) t) df of
        Some r \<Rightarrow> Inr (col r)
      | None \<Rightarrow> Inl (if \<exists>r\<in>set df. cell_eq (type_name r) n
                     then IndexError_term_not_found t n
                     else ValueError_enum_not_found n))"
proof (cases "\<exists>r\<in>set df. cell_eq (type_name r) n")
  case True
  then show ?thesis
    by (simp add: get_enum_field_def pull_enum_cases filter_first find_filter_conj split: option.splits)
next
  case False
  then have "find (\<lambda>r. cell_eq (type_name r) n \<and> cell_eq (enum_col r) t) df = None"
    by (auto simp: find_None_iff)
  with False show ?thesis
    by (simp add: get_enum_field_def pull_enum_cases)
qed

subsection \<open>Records and entries\<close>

lemma enum_def_loop_map:
  "enum_def_loop df n ts acc = acc @ map (enumdef_of df n) ts"
  by (induction ts arbitrary: acc) simp_all

lemma dict_lookup_try_field:
  "dict_lookup (try_field d key fetched) k =
     (case fetched of
        Inl e \<Rightarrow> dict_lookup d k
      | Inr x \<Rightarrow> if \<not> check_null x \<and> py_eq (PStr key) k then Some x else dict_lookup d k)"
  by (simp add: try_field_def dict_lookup_dict_set split: sum.splits)

lemma dict_get_enumdef_of:
  "dict_get (enumdef_of df n t) (PStr ''enumeration'') = Some t"
  "dict_get (enumdef_of df n t) (PStr ''definition'') =
     (case get_enum_definition df n t of
        Inl e \<Rightarrow> None | Inr x \<Rightarrow> if check_null x then None else Some x)"
  "dict_get (enumdef_of df n t) (PStr ''source'') =
     (case get_enum_source df n t of
        Inl e \<Rightarrow> None | Inr x \<Rightarrow> if check_null x then None else Some x)"
  "dict_get (enumdef_of df n t) (PStr ''term_id'') =
     (case get_enum_term_id df n t of
        Inl e \<Rightarrow> None | Inr x \<Rightarrow> if check_null x then None else Some x)"
  by (simp_all add: enumdef_of_def Let_def dict_lookup_try_field py_eq_PStr split: sum.splits)

lemma construct_enum_def_map:
  "construct_enum_def df n =
     (case get_enum_list df n of Inl e \<Rightarrow> Inl e | Inr ts \<Rightarrow> Inr (map (enumdef_of df n) ts))"
  by (simp add: construct_enum_def_def enum_def_loop_map split: sum.splits)

lemma get_enum_list_upd:
  "get_enum_list df n =
     (if \<exists>r\<in>set df. cell_eq (type_name r) n then Inr (upd_get_enum_list df n)
      else Inl (ValueError_enum_not_found n))"
  by (simp add: get_enum_list_def pull_enum_cases upd_get_enum_list_def upd_pull_enum_def)

lemma entry_built_iff:
  "(\<exists>entry. construct_enum_term_yaml_entry df n d = Inr entry) \<longleftrightarrow>
     (\<exists>r\<in>set df. cell_eq (type_name r) n)"
  by (simp add: construct_enum_term_yaml_entry_def construct_enum_def_map get_enum_list_upd)

lemma entry_error:
  "construct_enum_term_yaml_entry df n d = Inl e \<Longrightarrow> e = ValueError_enum_not_found n"
  by (simp add: construct_enum_term_yaml_entry_def construct_enum_def_map get_enum_list_upd
           split: if_splits)

lemma try_field_same_name:
  assumes "py_eq n x"
  shows "try_field d key (get_enum_field col df n t) = try_field d key (get_enum_field col df x t)"
  using cell_eq_same_name [OF assms]
  by (simp add: get_enum_field_find try_field_def split: option.splits)

lemma enumdef_of_same_name: "py_eq n x \<Longrightarrow> enumdef_of df n t = enumdef_of df x t"
  by (simp add: enumdef_of_def Let_def get_enum_definition_def get_enum_source_def
        get_enum_term_id_def try_field_same_name [of n x])

lemma entry_same_name:
  assumes "py_eq n x" and "construct_enum_term_yaml_entry df n d = Inr entry"
  shows "construct_enum_term_yaml_entry df x d = Inr entry"
proof -
  from assms(1) have rows: "upd_get_enum_list df n = upd_get_enum_list df x"
    "(\<exists>r\<in>set df. cell_eq (type_name r) n) \<longleftrightarrow> (\<exists>r\<in>set df. cell_eq (type_name r) x)"
    by (simp_all add: upd_get_enum_list_def upd_pull_enum_def cell_eq_same_name [of n x])
  from assms(1) have recs: "enumdef_of df n = enumdef_of df x"
    by (simp add: fun_eq_iff enumdef_of_same_name)
  from assms(2) rows recs show ?thesis
    by (simp add: construct_enum_term_yaml_entry_def construct_enum_def_map get_enum_list_upd
          split: if_splits)
qed

lemma enumdef_of_missing_term:
  assumes "is_na t"
  shows "enumdef_of df n t = PDict [(PStr ''enumeration'', t)]"
proof -
  from assms have "find (\<lambda>r. cell_eq (type_name r) n \<and> cell_eq (enum_col r) t) df = None"
    by (simp add: find_None_iff cell_eq_na)
  then show ?thesis
    by (simp add: enumdef_of_def Let_def get_enum_definition_def get_enum_source_def
          get_enum_term_id_def get_enum_field_find try_field_def)
qed

subsection \<open>The older script\<close>

lemma upd_get_enum_field_find:
  "upd_get_enum_field col df n t =
     (case find (\<lambda>r. cell_eq (type_name r) n \<and> cell_eq (enum_col r) t) df of
        Some r \<Rightarrow> Inr (col r)
      | None \<Rightarrow> Inl IndexError_out_of_bounds)"
  by (simp add: upd_get_enum_field_def upd_pull_enum_def filter_first find_filter_conj
           split: option.splits)

lemma upd_enumdef_of_found:
  assumes "find (\<lambda>r. cell_eq (type_name r) n \<and> cell_eq (enum_col r) t) df = Some r"
  shows "upd_enumdef_of df n t = Inr (enumdef_of df n t)"
  using assms
  by (simp add: upd_enumdef_of_def enumdef_of_def Let_def upd_set_field_def try_field_def
        upd_get_enum_definition_def upd_get_enum_source_def upd_get_enum_term_id_def
        get_enum_definition_def get_enum_source_def get_enum_term_id_def
        upd_get_enum_field_find get_enum_field_find)

lemma upd_enumdef_of_missing:
  assumes "find (\<lambda>r. cell_eq (type_name r) n \<and> cell_eq (enum_col r) t) df = None"
  shows "upd_enumdef_of df n t = Inl IndexError_out_of_bounds"
  using assms
  by (simp add: upd_enumdef_of_def upd_set_field_def upd_get_enum_definition_def
        upd_get_enum_field_find)

lemma term_found_iff:
  assumes "t \<in> set (upd_get_enum_list df n)"
  shows "find (\<lambda>r. cell_eq (type_name r) n \<and> cell_eq (enum_col r) t) df = None \<longleftrightarrow> is_na t"
proof
  assume "is_na t"
  then show "find (\<lambda>r. cell_eq (type_name r) n \<and> cell_eq (enum_col r) t) df = None"
    by (simp add: find_None_iff cell_eq_na)
next
  assume none: "find (\<lambda>r. cell_eq (type_name r) n \<and> cell_eq (enum_col r) t) df = None"
  from assms obtain r where "r \<in> set df" "cell_eq (type_name r) n" "enum_col r = t"
    by (auto simp: upd_get_enum_list_def upd_pull_enum_def col_to_list_def)
  with none have "\<not> cell_eq t t"
    by (auto simp: find_None_iff)
  then show "is_na t"
    by (simp add: cell_eq_self)
qed

lemma upd_enumdef_of_term:
  assumes "t \<in> set (upd_get_enum_list df n)"
  shows "upd_enumdef_of df n t =
           (if is_na t then Inl IndexError_out_of_bounds else Inr (enumdef_of df n t))"
proof (cases "find (\<lambda>r. cell_eq (type_name r) n \<and> cell_eq (enum_col r) t) df")
  case None
  with term_found_iff [OF assms] show ?thesis by (simp add: upd_enumdef_of_missing)
next
  case (Some r)
  with term_found_iff [OF assms] show ?thesis by (simp add: upd_enumdef_of_found)
qed

lemma upd_enum_def_loop_terms:
  assumes "set ts \<subseteq> set (upd_get_enum_list df n)"
  shows "upd_enum_def_loop df n ts acc =
           (if \<exists>t\<in>set ts. is_na t then Inl IndexError_out_of_bounds
            else Inr (acc @ map (enumdef_of df n) ts))"
  using assms
  by (induction ts arbitrary: acc) (simp_all add: upd_enumdef_of_term)

subsection \<open>The distinct names of a column\<close>

lemma unique_from_subset: "set (unique_from seen xs) \<subseteq> set seen \<union> set xs"
proof (induction xs arbitrary: seen)
  case Nil
  then show ?case by simp
next
  case (Cons y ys)
  from Cons.IH [of seen] Cons.IH [of "seen @ [y]"] show ?case by auto
qed

lemma unique_from_covers:
  "\<forall>x\<in>set seen \<union> set xs. \<exists>n\<in>set (unique_from seen xs). py_eq n x"
proof (induction xs arbitrary: seen)
  case Nil
  then show ?case by (auto intro: py_eq_refl)
next
  case (Cons y ys)
  show ?case
  proof (cases "\<exists>z\<in>set seen. py_eq z y")
    case True
    then obtain z where z: "z \<in> set seen" "py_eq z y" by blast
    from Cons.IH [of seen] z(1) obtain n where
      "n \<in> set (unique_from seen ys)" "py_eq n z" by auto
    with z(2) have "\<exists>n\<in>set (unique_from seen ys). py_eq n y"
      by (auto intro: py_eq_trans)
    with Cons.IH [of seen] True show ?thesis by auto
  next
    case False
    with Cons.IH [of "seen @ [y]"] show ?thesis by auto
  qed
qed

lemma unique_from_apart:
  assumes "\<forall>a\<in>set seen. \<forall>b\<in>set seen. py_eq a b \<longrightarrow> a = b"
  shows "\<forall>a\<in>set (unique_from seen xs). \<forall>b\<in>set (unique_from seen xs). py_eq a b \<longrightarrow> a = b"
  using assms
proof (induction xs arbitrary: seen)
  case Nil
  then show ?case by simp
next
  case (Cons y ys)
  show ?case
  proof (cases "\<exists>z\<in>set seen. py_eq z y")
    case True
    with Cons.IH [OF Cons.prems] show ?thesis by simp
  next
    case False
    with Cons.prems have
      "\<forall>a\<in>set (seen @ [y]). \<forall>b\<in>set (seen @ [y]). py_eq a b \<longrightarrow> a = b"
      by (auto dest: py_eq_sym)
    from Cons.IH [OF this] False show ?thesis by simp
  qed
qed

lemma unique_facts:
  "set (unique xs) \<subseteq> set xs"
  "x \<in> set xs \<Longrightarrow> \<exists>n\<in>set (unique xs). py_eq n x"
  "\<forall>a\<in>set (unique xs). \<forall>b\<in>set (unique xs). py_eq a b \<longrightarrow> a = b"
  using unique_from_subset [of "[]" xs] unique_from_covers [of "[]" xs]
    unique_from_apart [of "[]" xs]
  by (simp_all add: unique_def)

subsection \<open>The merge loop\<close>

lemma merge_loop_frame:
  "\<forall>n\<in>set names. \<not> py_eq n k \<Longrightarrow>
     dict_lookup (snd (merge_loop df names d)) k = dict_lookup d k"
  by (induction names arbitrary: d) (auto simp: dict_lookup_dict_set split: sum.splits)

lemma merge_loop_append:
  "merge_loop df (before @ rest) d =
     (case merge_loop df before d of
        (None, d') \<Rightarrow> merge_loop df rest d'
      | (Some e, d') \<Rightarrow> (Some e, d'))"
  by (induction before arbitrary: d) (auto split: sum.splits)

lemma merge_loop_completes_iff:
  "fst (merge_loop df names d) = None \<longleftrightarrow>
     (\<forall>n\<in>set names. \<exists>entry. construct_enum_term_yaml_entry df n PNone = Inr entry)"
  by (induction names arbitrary: d) (auto split: sum.splits)

lemma merge_loop_sets:
  assumes "fst (merge_loop df names d) = None" and "n \<in> set names"
    and "\<forall>a\<in>set names. \<forall>b\<in>set names. py_eq a b \<longrightarrow> a = b"
  shows "\<exists>entry. construct_enum_term_yaml_entry df n PNone = Inr entry \<and>
                 dict_lookup (snd (merge_loop df names d)) n = Some entry"
  using assms
proof (induction names arbitrary: d)
  case Nil
  then show ?case by simp
next
  case (Cons m rest)
  from Cons.prems(1) obtain entry where
    built: "construct_enum_term_yaml_entry df m PNone = Inr entry"
    by (auto split: sum.splits)
  with Cons.prems(1) have rest: "fst (merge_loop df rest (dict_set d m entry)) = None"
    by simp
  from Cons.prems(3) have apart: "\<forall>a\<in>set rest. \<forall>b\<in>set rest. py_eq a b \<longrightarrow> a = b"
    by simp
  show ?case
  proof (cases "n \<in> set rest")
    case True
    from Cons.IH [OF rest True apart] built show ?thesis by simp
  next
    case False
    with Cons.prems(2) have nm: "n = m" by simp
    with False Cons.prems(3) have "\<forall>a\<in>set rest. \<not> py_eq a m"
      by auto
    with nm built show ?thesis
      by (simp add: merge_loop_frame dict_lookup_dict_set py_eq_refl)
  qed
qed

lemma merge_loop_raises:
  "fst (merge_loop df names d) = Some e \<Longrightarrow>
     \<exists>n\<in>set names. construct_enum_term_yaml_entry df n PNone = Inl e"
  by (induction names arbitrary: d) (auto split: sum.splits)

lemma process_enums_fields:
  "raised (process_enums df names d) = fst (merge_loop df names d)"
  "definitions_dict (process_enums df names d) = snd (merge_loop df names d)"
  "written (process_enums df names d) =
     (if fst (merge_loop df names d) = None then [snd (merge_loop df names d)] else [])"
  by (simp_all add: process_enums_def split: prod.splits option.splits)

subsection \<open>\<^verbatim>\<open>check_null\<close> by the shape of its argument\<close>

lemma check_null_cases:
  "check_null v \<longleftrightarrow>
     v = PNone \<or> v = PFloat NaN \<or> (\<exists>s. v = PStr s \<and> lower (strip s) \<in> set null_strs) \<or>
     v = PList [] \<or> v = PTuple [] \<or> v = PSet [] \<or> v = PDict []"
proof (cases v)
  case (PFloat f)
  then show ?thesis by (cases f) (simp_all add: check_null_def)
qed (simp_all add: check_null_def)

section \<open>The claims\<close>

text \<open>
  \<^bold>\<open>C1\<close> (as amended). The merge loop of \<^verbatim>\<open>process_enums\<close>, run over the distinct
  \<^verbatim>\<open>type_name\<close> values of the table in any order, from any loaded document. Keys are
  equal as they are for a Python dictionary (\<open>py_eq\<close>: \<^verbatim>\<open>1\<close>, \<^verbatim>\<open>1.0\<close> and \<^verbatim>\<open>True\<close> are
  one key).
  \<^item> A key equal to no \<^verbatim>\<open>type_name\<close> cell of the table has in the in-memory document,
    at the end of the loop or at the exception that ends it, the value it had.
  \<^item> When no \<^verbatim>\<open>type_name\<close> cell is missing, the loop completes, and every
    \<^verbatim>\<open>type_name\<close> of the table is a key whose value is the entry built for it from
    the table (with no description), whatever the key held before.
  \<^item> When a \<^verbatim>\<open>type_name\<close> cell is missing (\<^verbatim>\<open>None\<close> or NaN), the loop ends with the
    \<^verbatim>\<open>ValueError\<close> of \<^verbatim>\<open>pull_enum\<close> for a missing name, and nothing is written.
\<close>

theorem merge_frame:
  assumes "set_order enum_df names"
  shows "(\<forall>k. (\<forall>n\<in>set (col_to_list enum_df type_name). \<not> py_eq n k) \<longrightarrow>
            dict_lookup (definitions_dict (process_enums enum_df names loaded)) k =
              dict_lookup loaded k) \<and>
         ((\<forall>r\<in>set enum_df. \<not> is_na (type_name r)) \<longrightarrow>
            raised (process_enums enum_df names loaded) = None \<and>
            (\<forall>n\<in>set (col_to_list enum_df type_name). \<exists>entry.
               construct_enum_term_yaml_entry enum_df n PNone = Inr entry \<and>
               dict_lookup (definitions_dict (process_enums enum_df names loaded)) n =
                 Some entry)) \<and>
         ((\<exists>r\<in>set enum_df. is_na (type_name r)) \<longrightarrow>
            (\<exists>n\<in>set (col_to_list enum_df type_name). is_na n \<and>
               raised (process_enums enum_df names loaded) = Some (ValueError_enum_not_found n)) \<and>
            written (process_enums enum_df names loaded) = [])"
proof -
  let ?col = "col_to_list enum_df type_name"
  from assms have names: "set names = set (unique ?col)"
    by (simp add: set_order_def)
  from names have sub: "set names \<subseteq> set ?col"
    using unique_facts(1) [of ?col] by simp
  from names have cover: "\<exists>n\<in>set names. py_eq n x" if "x \<in> set ?col" for x
    using unique_facts(2) [OF that] by simp
  from names have apart: "\<forall>a\<in>set names. \<forall>b\<in>set names. py_eq a b \<longrightarrow> a = b"
    using unique_facts(3) [of ?col] by simp
  have row: "\<exists>r\<in>set enum_df. cell_eq (type_name r) n" if "n \<in> set names" "\<not> is_na n" for n
  proof -
    from that(1) sub obtain r where "r \<in> set enum_df" "type_name r = n"
      by (auto simp: col_to_list_def)
    with that(2) have "r \<in> set enum_df" "cell_eq (type_name r) n"
      by (simp_all add: cell_eq_self)
    then show ?thesis by blast
  qed
  have frame: "\<forall>k. (\<forall>n\<in>set ?col. \<not> py_eq n k) \<longrightarrow>
            dict_lookup (definitions_dict (process_enums enum_df names loaded)) k =
              dict_lookup loaded k"
    using sub by (auto simp: process_enums_fields intro: merge_loop_frame)
  have ok: "raised (process_enums enum_df names loaded) = None \<and>
            (\<forall>n\<in>set ?col. \<exists>entry.
               construct_enum_term_yaml_entry enum_df n PNone = Inr entry \<and>
               dict_lookup (definitions_dict (process_enums enum_df names loaded)) n =
                 Some entry)"
    if clean: "\<forall>r\<in>set enum_df. \<not> is_na (type_name r)"
  proof -
    have "\<forall>n\<in>set names. \<exists>entry. construct_enum_term_yaml_entry enum_df n PNone = Inr entry"
    proof
      fix n assume n: "n \<in> set names"
      with sub clean have "\<not> is_na n"
        by (auto simp: col_to_list_def)
      from row [OF n this]
      show "\<exists>entry. construct_enum_term_yaml_entry enum_df n PNone = Inr entry"
        by (simp add: entry_built_iff)
    qed
    then have fin: "fst (merge_loop enum_df names loaded) = None"
      by (simp add: merge_loop_completes_iff)
    have "\<exists>entry. construct_enum_term_yaml_entry enum_df x PNone = Inr entry \<and>
            dict_lookup (snd (merge_loop enum_df names loaded)) x = Some entry"
      if "x \<in> set ?col" for x
    proof -
      from cover [OF that] obtain n where n: "n \<in> set names" "py_eq n x"
        by blast
      from merge_loop_sets [OF fin n(1) apart] obtain entry where
        entry: "construct_enum_term_yaml_entry enum_df n PNone = Inr entry"
          "dict_lookup (snd (merge_loop enum_df names loaded)) n = Some entry"
        by blast
      from entry_same_name [OF n(2) entry(1)] entry(2) dict_lookup_same_key [OF n(2)]
      show ?thesis by simp
    qed
    with fin show ?thesis
      by (simp add: process_enums_fields)
  qed
  have bad: "(\<exists>n\<in>set ?col. is_na n \<and>
               raised (process_enums enum_df names loaded) = Some (ValueError_enum_not_found n)) \<and>
            written (process_enums enum_df names loaded) = []"
    if gap: "\<exists>r\<in>set enum_df. is_na (type_name r)"
  proof -
    from gap obtain x where x: "x \<in> set ?col" "is_na x"
      by (auto simp: col_to_list_def)
    from cover [OF x(1)] obtain m where m: "m \<in> set names" "py_eq m x"
      by blast
    with x(2) have "is_na m"
      by (simp add: is_na_py_eq)
    then have "\<not> (\<exists>r\<in>set enum_df. cell_eq (type_name r) m)"
      by (simp add: cell_eq_na)
    then have "\<not> (\<exists>entry. construct_enum_term_yaml_entry enum_df m PNone = Inr entry)"
      by (simp add: entry_built_iff)
    with m(1) have "fst (merge_loop enum_df names loaded) \<noteq> None"
      by (auto simp: merge_loop_completes_iff)
    then obtain e where e: "fst (merge_loop enum_df names loaded) = Some e"
      by auto
    from merge_loop_raises [OF e] obtain n where
      n: "n \<in> set names" "construct_enum_term_yaml_entry enum_df n PNone = Inl e"
      by auto
    from n(2) have e_eq: "e = ValueError_enum_not_found n"
      by (rule entry_error)
    have "is_na n"
    proof (rule ccontr)
      assume "\<not> is_na n"
      from row [OF n(1) this]
      have "\<exists>entry. construct_enum_term_yaml_entry enum_df n PNone = Inr entry"
        by (simp add: entry_built_iff)
      with n(2) show False by simp
    qed
    with n(1) sub e e_eq show ?thesis
      by (auto simp: process_enums_fields)
  qed
  from frame ok bad show ?thesis by blast
qed

text \<open>
  C1, at the table \<open>repeat_table\<close> with the loop taking \<open>Size\<close> before \<open>Color\<close>: the key
  \<open>Y\<close> of the old document keeps its value, and the old value of \<open>Color\<close> gives way to
  the entry built from the three \<open>Color\<close> rows. And at \<open>numbered_table\<close>, whose type name
  is the integer \<open>1\<close>, on a document with the keys \<open>True\<close> and \<open>2\<close>: the key \<open>2\<close> keeps its
  value, and the entry for \<open>1\<close> takes the place of the value at \<open>True\<close>, which is the
  same key.
\<close>

theorem merge_frame_witness:
  "set_order repeat_table [PStr ''Size'', PStr ''Color''] \<and>
   dict_lookup (definitions_dict
     (process_enums repeat_table [PStr ''Size'', PStr ''Color''] old_document)) (PStr ''Y'') =
     Some (PDict [(PStr ''type'', PStr ''string'')]) \<and>
   raised (process_enums repeat_table [PStr ''Size'', PStr ''Color''] old_document) = None \<and>
   dict_lookup (definitions_dict
     (process_enums repeat_table [PStr ''Size'', PStr ''Color''] old_document)) (PStr ''Color'') =
     Some (PDict
       [(PStr ''description'', PNone),
        (PStr ''enum'', PList [PStr ''RED'', PStr ''BLUE'', PStr ''RED'']),
        (PStr ''enumDef'', PList
          [PDict [(PStr ''enumeration'', PStr ''RED''),
                  (PStr ''definition'', PStr ''red color''),
                  (PStr ''term_id'', PStr ''T1'')],
           PDict [(PStr ''enumeration'', PStr ''BLUE''),
                  (PStr ''source'', PStr ''src2'')],
           PDict [(PStr ''enumeration'', PStr ''RED''),
                  (PStr ''definition'', PStr ''red color''),
                  (PStr ''term_id'', PStr ''T1'')]])]) \<and>
   set_order numbered_table [PInt 1] \<and>
   dict_lookup (definitions_dict (process_enums numbered_table [PInt 1] yes_document)) (PInt 2) =
     Some (PStr ''other'') \<and>
   dict_lookup (definitions_dict (process_enums numbered_table [PInt 1] yes_document)) (PInt 1) =
     Some (PDict
       [(PStr ''description'', PNone),
        (PStr ''enum'', PList [PStr ''low'']),
        (PStr ''enumDef'', PList
          [PDict [(PStr ''enumeration'', PStr ''low''),
                  (PStr ''definition'', PStr ''lowest grade'')]])]) \<and>
   definitions_dict (process_enums numbered_table [PInt 1] yes_document) =
     [(PBool True, PDict
       [(PStr ''description'', PNone),
        (PStr ''enum'', PList [PStr ''low'']),
        (PStr ''enumDef'', PList
          [PDict [(PStr ''enumeration'', PStr ''low''),
                  (PStr ''definition'', PStr ''lowest grade'')]])]),
      (PInt 2, PStr ''other'')]"
proof -
  have order: "set_order repeat_table [PStr ''Size'', PStr ''Color'']"
    "set_order numbered_table [PInt 1]"
    by code_simp+
  have apart: "\<forall>n\<in>set (col_to_list repeat_table type_name). \<not> py_eq n (PStr ''Y'')"
    "\<forall>n\<in>set (col_to_list numbered_table type_name). \<not> py_eq n (PInt 2)"
    by code_simp+
  have occurs: "PStr ''Color'' \<in> set (col_to_list repeat_table type_name)"
    "PInt 1 \<in> set (col_to_list numbered_table type_name)"
    by code_simp+
  have clean: "\<forall>r\<in>set repeat_table. \<not> is_na (type_name r)"
    "\<forall>r\<in>set numbered_table. \<not> is_na (type_name r)"
    by code_simp+
  have old: "dict_lookup old_document (PStr ''Y'') = Some (PDict [(PStr ''type'', PStr ''string'')])"
    "dict_lookup yes_document (PInt 2) = Some (PStr ''other'')"
    by code_simp+
  have color: "construct_enum_term_yaml_entry repeat_table (PStr ''Color'') PNone =
     Inr (PDict
       [(PStr ''description'', PNone),
        (PStr ''enum'', PList [PStr ''RED'', PStr ''BLUE'', PStr ''RED'']),
        (PStr ''enumDef'', PList
          [PDict [(PStr ''enumeration'', PStr ''RED''),
                  (PStr ''definition'', PStr ''red color''),
                  (PStr ''term_id'', PStr ''T1'')],
           PDict [(PStr ''enumeration'', PStr ''BLUE''),
                  (PStr ''source'', PStr ''src2'')],
           PDict [(PStr ''enumeration'', PStr ''RED''),
                  (PStr ''definition'', PStr ''red color''),
                  (PStr ''term_id'', PStr ''T1'')]])])"
    by code_simp
  have one: "construct_enum_term_yaml_entry numbered_table (PInt 1) PNone =
     Inr (PDict
       [(PStr ''description'', PNone),
        (PStr ''enum'', PList [PStr ''low'']),
        (PStr ''enumDef'', PList
          [PDict [(PStr ''enumeration'', PStr ''low''),
                  (PStr ''definition'', PStr ''lowest grade'')]])])"
    by code_simp
  have whole: "definitions_dict (process_enums numbered_table [PInt 1] yes_document) =
     [(PBool True, PDict
       [(PStr ''description'', PNone),
        (PStr ''enum'', PList [PStr ''low'']),
        (PStr ''enumDef'', PList
          [PDict [(PStr ''enumeration'', PStr ''low''),
                  (PStr ''definition'', PStr ''lowest grade'')]])]),
      (PInt 2, PStr ''other'')]"
    by code_simp
  note colors = merge_frame [OF order(1), of old_document]
  note numbers = merge_frame [OF order(2), of yes_document]
  from colors apart(1) old(1) have a: "dict_lookup (definitions_dict
     (process_enums repeat_table [PStr ''Size'', PStr ''Color''] old_document)) (PStr ''Y'') =
     Some (PDict [(PStr ''type'', PStr ''string'')])"
    by simp
  from colors clean(1)
  have b: "raised (process_enums repeat_table [PStr ''Size'', PStr ''Color''] old_document) = None"
    by blast
  from colors clean(1) occurs(1) have "\<exists>entry.
      construct_enum_term_yaml_entry repeat_table (PStr ''Color'') PNone = Inr entry \<and>
      dict_lookup (definitions_dict
        (process_enums repeat_table [PStr ''Size'', PStr ''Color''] old_document)) (PStr ''Color'') =
        Some entry"
    by blast
  with color have c: "dict_lookup (definitions_dict
        (process_enums repeat_table [PStr ''Size'', PStr ''Color''] old_document)) (PStr ''Color'') =
        Some (PDict
       [(PStr ''description'', PNone),
        (PStr ''enum'', PList [PStr ''RED'', PStr ''BLUE'', PStr ''RED'']),
        (PStr ''enumDef'', PList
          [PDict [(PStr ''enumeration'', PStr ''RED''),
                  (PStr ''definition'', PStr ''red color''),
                  (PStr ''term_id'', PStr ''T1'')],
           PDict [(PStr ''enumeration'', PStr ''BLUE''),
                  (PStr ''source'', PStr ''src2'')],
           PDict [(PStr ''enumeration'', PStr ''RED''),
                  (PStr ''definition'', PStr ''red color''),
                  (PStr ''term_id'', PStr ''T1'')]])])"
    by simp
  from numbers apart(2) old(2)
  have d: "dict_lookup (definitions_dict (process_enums numbered_table [PInt 1] yes_document))
             (PInt 2) = Some (PStr ''other'')"
    by simp
  from numbers clean(2) occurs(2) have "\<exists>entry.
      construct_enum_term_yaml_entry numbered_table (PInt 1) PNone = Inr entry \<and>
      dict_lookup (definitions_dict (process_enums numbered_table [PInt 1] yes_document)) (PInt 1) =
        Some entry"
    by blast
  with one have e: "dict_lookup (definitions_dict
       (process_enums numbered_table [PInt 1] yes_document)) (PInt 1) =
     Some (PDict
       [(PStr ''description'', PNone),
        (PStr ''enum'', PList [PStr ''low'']),
        (PStr ''enumDef'', PList
          [PDict [(PStr ''enumeration'', PStr ''low''),
                  (PStr ''definition'', PStr ''lowest grade'')]])])"
    by simp
  from order a b c d e whole show ?thesis by simp
qed

text \<open>
  C1 as first stated (every \<^verbatim>\<open>type_name\<close> of every table ends up as a key with its
  new entry) fails on a table with an empty \<^verbatim>\<open>type_name\<close> cell. No row compares equal to
  NaN, so \<^verbatim>\<open>pull_enum\<close> raises for it. When the loop meets NaN first, the document is
  still the old one, \<open>Color\<close> included; when it meets \<open>Color\<close> first, NaN is no key at the
  end. In both orders nothing is written.
\<close>

theorem merge_frame_counterexample:
  "set_order blank_type_table [PFloat NaN, PStr ''Color''] \<and>
   raised (process_enums blank_type_table [PFloat NaN, PStr ''Color''] old_document) =
     Some (ValueError_enum_not_found (PFloat NaN)) \<and>
   definitions_dict (process_enums blank_type_table [PFloat NaN, PStr ''Color''] old_document) =
     old_document \<and>
   dict_lookup old_document (PStr ''Color'') = Some (PStr ''old'') \<and>
   written (process_enums blank_type_table [PFloat NaN, PStr ''Color''] old_document) = [] \<and>
   set_order blank_type_table [PStr ''Color'', PFloat NaN] \<and>
   raised (process_enums blank_type_table [PStr ''Color'', PFloat NaN] old_document) =
     Some (ValueError_enum_not_found (PFloat NaN)) \<and>
   dict_lookup (definitions_dict
     (process_enums blank_type_table [PStr ''Color'', PFloat NaN] old_document)) (PFloat NaN) =
     None \<and>
   written (process_enums blank_type_table [PStr ''Color'', PFloat NaN] old_document) = []"
  by code_simp

text \<open>
  \<^bold>\<open>C2\<close>. \<^verbatim>\<open>check_null\<close> is true of exactly: \<^verbatim>\<open>None\<close>; the float NaN; a string
  whose stripped, lowercased form is in the vocabulary; the empty list, tuple, set and
  dictionary. In particular it is false of \<open>0\<close>, of \<open>False\<close>, of the string \<open>0\<close>, of every
  non-empty collection and of every value of another type. As a total function of the
  model it returns for every value.
\<close>

theorem check_null_exactly:
  "(\<forall>v. check_null v \<longleftrightarrow>
     v = PNone \<or> v = PFloat NaN \<or> (\<exists>s. v = PStr s \<and> lower (strip s) \<in> set null_strs) \<or>
     v = PList [] \<or> v = PTuple [] \<or> v = PSet [] \<or> v = PDict []) \<and>
   set null_strs = {'''', ''null'', ''none'', ''nan'', ''n/a'', ''na'',
                    ''not available'', ''not applicable'', ''missing''} \<and>
   \<not> check_null (PInt 0) \<and> \<not> check_null (PBool False) \<and> \<not> check_null (PStr ''0'') \<and>
   (\<forall>x xs. \<not> check_null (PList (x # xs)) \<and> \<not> check_null (PTuple (x # xs)) \<and>
            \<not> check_null (PSet (x # xs))) \<and>
   (\<forall>kv kvs. \<not> check_null (PDict (kv # kvs))) \<and>
   (\<forall>c. \<not> check_null (PObject c)) \<and>
   check_null (PStr '' Not Available '') \<and> check_null (PStr ''NULL'')"
proof -
  have a: "\<not> check_null (PStr ''0'')" "check_null (PStr '' Not Available '')"
      "check_null (PStr ''NULL'')"
    by code_simp+
  have b: "set null_strs = {'''', ''null'', ''none'', ''nan'', ''n/a'', ''na'',
                    ''not available'', ''not applicable'', ''missing''}"
    by (simp add: null_strs_def)
  show ?thesis
    using a b check_null_cases by (simp add: check_null_def)
qed

text \<open>
  \<^bold>\<open>C3\<close>. For a type with at least one row, \<^verbatim>\<open>construct_enum_term_yaml_entry\<close>
  returns an entry whose \<^verbatim>\<open>enum\<close> and \<^verbatim>\<open>enumDef\<close> lists have the same length, the
  record at each index holding under \<^verbatim>\<open>enumeration\<close> the term at that index.
\<close>

theorem entry_lists_aligned:
  assumes "\<exists>r\<in>set df. cell_eq (type_name r) enum_name"
  shows "\<exists>enum_term_list enum_def_list.
           construct_enum_term_yaml_entry df enum_name description =
             Inr (PDict [(PStr ''description'', description),
                         (PStr ''enum'', PList enum_term_list),
                         (PStr ''enumDef'', PList enum_def_list)]) \<and>
           length enum_def_list = length enum_term_list \<and>
           (\<forall>i<length enum_term_list.
              dict_get (enum_def_list ! i) (PStr ''enumeration'') = Some (enum_term_list ! i))"
proof -
  from assms obtain ts where ts: "get_enum_list df enum_name = Inr ts"
    by (auto simp: get_enum_list_def pull_enum_cases)
  show ?thesis
    by (rule exI [of _ ts], rule exI [of _ "map (enumdef_of df enum_name) ts"])
       (simp add: construct_enum_term_yaml_entry_def construct_enum_def_map ts dict_get_enumdef_of)
qed

text \<open>C3, at \<open>repeat_table\<close>, where \<open>RED\<close> is the first and the third term of \<open>Color\<close>.\<close>

theorem entry_lists_aligned_witness:
  "(\<exists>r\<in>set repeat_table. cell_eq (type_name r) (PStr ''Color'')) \<and>
   (\<exists>enum_term_list enum_def_list.
      construct_enum_term_yaml_entry repeat_table (PStr ''Color'') PNone =
        Inr (PDict [(PStr ''description'', PNone),
                    (PStr ''enum'', PList enum_term_list),
                    (PStr ''enumDef'', PList enum_def_list)]) \<and>
      enum_term_list = [PStr ''RED'', PStr ''BLUE'', PStr ''RED''] \<and>
      length enum_def_list = 3 \<and>
      dict_get (enum_def_list ! 0) (PStr ''enumeration'') = Some (PStr ''RED'') \<and>
      dict_get (enum_def_list ! 1) (PStr ''enumeration'') = Some (PStr ''BLUE'') \<and>
      dict_get (enum_def_list ! 2) (PStr ''enumeration'') = Some (PStr ''RED''))"
proof -
  have present: "\<exists>r\<in>set repeat_table. cell_eq (type_name r) (PStr ''Color'')"
    by code_simp
  have terms: "get_enum_list repeat_table (PStr ''Color'') =
                 Inr [PStr ''RED'', PStr ''BLUE'', PStr ''RED'']"
    by code_simp
  from entry_lists_aligned [OF present, of PNone] obtain ts ds where
    entry: "construct_enum_term_yaml_entry repeat_table (PStr ''Color'') PNone =
        Inr (PDict [(PStr ''description'', PNone), (PStr ''enum'', PList ts),
                    (PStr ''enumDef'', PList ds)])"
    and len: "length ds = length ts"
    and at: "\<forall>i<length ts. dict_get (ds ! i) (PStr ''enumeration'') = Some (ts ! i)"
    by blast
  from entry terms have ts: "ts = [PStr ''RED'', PStr ''BLUE'', PStr ''RED'']"
    by (simp add: construct_enum_term_yaml_entry_def split: sum.splits)
  from at ts have "dict_get (ds ! 0) (PStr ''enumeration'') = Some (PStr ''RED'')"
    "dict_get (ds ! 1) (PStr ''enumeration'') = Some (PStr ''BLUE'')"
    "dict_get (ds ! 2) (PStr ''enumeration'') = Some (PStr ''RED'')"
    by simp_all
  with present entry len ts show ?thesis by simp
qed

text \<open>
  \<^bold>\<open>C4\<close>. When the term list of a type exists, \<^verbatim>\<open>construct_enum_def\<close> returns (it
  raises nothing), one record per term, and a record has the key \<^verbatim>\<open>definition\<close>
  (\<^verbatim>\<open>source\<close>, \<^verbatim>\<open>term_id\<close>) exactly when the lookup of that field for its term
  succeeds with a value that \<^verbatim>\<open>check_null\<close> does not take for null; the key then holds
  that value.
\<close>

theorem optional_keys_iff:
  assumes "get_enum_list df enum_name = Inr enum_term_list"
  shows "\<exists>enum_def_list.
           construct_enum_def df enum_name = Inr enum_def_list \<and>
           length enum_def_list = length enum_term_list \<and>
           (\<forall>i<length enum_term_list.
              dict_get (enum_def_list ! i) (PStr ''definition'') =
                (case get_enum_definition df enum_name (enum_term_list ! i) of
                   Inl e \<Rightarrow> None
                 | Inr x \<Rightarrow> if check_null x then None else Some x) \<and>
              dict_get (enum_def_list ! i) (PStr ''source'') =
                (case get_enum_source df enum_name (enum_term_list ! i) of
                   Inl e \<Rightarrow> None
                 | Inr x \<Rightarrow> if check_null x then None else Some x) \<and>
              dict_get (enum_def_list ! i) (PStr ''term_id'') =
                (case get_enum_term_id df enum_name (enum_term_list ! i) of
                   Inl e \<Rightarrow> None
                 | Inr x \<Rightarrow> if check_null x then None else Some x))"
  by (rule exI [of _ "map (enumdef_of df enum_name) enum_term_list"])
     (simp add: construct_enum_def_map assms dict_get_enumdef_of)

text \<open>
  C4, at \<open>blank_term_table\<close>: the record of \<open>RED\<close> has its definition and its term id
  but no source (the empty string is null); the lookups for the NaN term fail, and its
  record has none of the three keys, though the row has a definition, a source and a
  term id.
\<close>

theorem optional_keys_iff_witness:
  "get_enum_list blank_term_table (PStr ''Color'') = Inr [PStr ''RED'', PFloat NaN] \<and>
   get_enum_definition blank_term_table (PStr ''Color'') (PStr ''RED'') = Inr (PStr ''red color'') \<and>
   get_enum_source blank_term_table (PStr ''Color'') (PStr ''RED'') = Inr (PStr '''') \<and>
   check_null (PStr '''') \<and>
   get_enum_definition blank_term_table (PStr ''Color'') (PFloat NaN) =
     Inl (IndexError_term_not_found (PFloat NaN) (PStr ''Color'')) \<and>
   (\<exists>enum_def_list.
      construct_enum_def blank_term_table (PStr ''Color'') = Inr enum_def_list \<and>
      length enum_def_list = 2 \<and>
      dict_get (enum_def_list ! 0) (PStr ''definition'') = Some (PStr ''red color'') \<and>
      dict_get (enum_def_list ! 0) (PStr ''source'') = None \<and>
      dict_get (enum_def_list ! 0) (PStr ''term_id'') = Some (PStr ''T1'') \<and>
      dict_get (enum_def_list ! 1) (PStr ''definition'') = None \<and>
      dict_get (enum_def_list ! 1) (PStr ''source'') = None \<and>
      dict_get (enum_def_list ! 1) (PStr ''term_id'') = None)"
proof -
  have terms: "get_enum_list blank_term_table (PStr ''Color'') = Inr [PStr ''RED'', PFloat NaN]"
    by code_simp
  have red: "get_enum_definition blank_term_table (PStr ''Color'') (PStr ''RED'') =
               Inr (PStr ''red color'')"
    "get_enum_source blank_term_table (PStr ''Color'') (PStr ''RED'') = Inr (PStr '''')"
    "get_enum_term_id blank_term_table (PStr ''Color'') (PStr ''RED'') = Inr (PStr ''T1'')"
    by code_simp+
  have blank: "get_enum_definition blank_term_table (PStr ''Color'') (PFloat NaN) =
                 Inl (IndexError_term_not_found (PFloat NaN) (PStr ''Color''))"
    "get_enum_source blank_term_table (PStr ''Color'') (PFloat NaN) =
                 Inl (IndexError_term_not_found (PFloat NaN) (PStr ''Color''))"
    "get_enum_term_id blank_term_table (PStr ''Color'') (PFloat NaN) =
                 Inl (IndexError_term_not_found (PFloat NaN) (PStr ''Color''))"
    by code_simp+
  have nulls: "check_null (PStr '''')" "\<not> check_null (PStr ''red color'')"
    "\<not> check_null (PStr ''T1'')"
    by code_simp+
  from optional_keys_iff [OF terms] obtain ds where
    built: "construct_enum_def blank_term_table (PStr ''Color'') = Inr ds"
    and len: "length ds = length [PStr ''RED'', PFloat NaN]"
    and keys: "\<forall>i<length [PStr ''RED'', PFloat NaN].
       dict_get (ds ! i) (PStr ''definition'') =
         (case get_enum_definition blank_term_table (PStr ''Color'') ([PStr ''RED'', PFloat NaN] ! i) of
            Inl e \<Rightarrow> None | Inr x \<Rightarrow> if check_null x then None else Some x) \<and>
       dict_get (ds ! i) (PStr ''source'') =
         (case get_enum_source blank_term_table (PStr ''Color'') ([PStr ''RED'', PFloat NaN] ! i) of
            Inl e \<Rightarrow> None | Inr x \<Rightarrow> if check_null x then None else Some x) \<and>
       dict_get (ds ! i) (PStr ''term_id'') =
         (case get_enum_term_id blank_term_table (PStr ''Color'') ([PStr ''RED'', PFloat NaN] ! i) of
            Inl e \<Rightarrow> None | Inr x \<Rightarrow> if check_null x then None else Some x)"
    by blast
  from keys [rule_format, of 0] keys [rule_format, of 1] red blank nulls
  have "dict_get (ds ! 0) (PStr ''definition'') = Some (PStr ''red color'')"
    "dict_get (ds ! 0) (PStr ''source'') = None"
    "dict_get (ds ! 0) (PStr ''term_id'') = Some (PStr ''T1'')"
    "dict_get (ds ! 1) (PStr ''definition'') = None"
    "dict_get (ds ! 1) (PStr ''source'') = None"
    "dict_get (ds ! 1) (PStr ''term_id'') = None"
    by simp_all
  with terms red blank nulls built len show ?thesis by simp
qed

text \<open>
  \<^bold>\<open>C5\<close>. \<^verbatim>\<open>pull_enum\<close> returns the rows whose \<^verbatim>\<open>type_name\<close> equals the argument,
  in table order, when there is one, and raises \<^verbatim>\<open>ValueError\<close> when there is none.
\<close>

theorem pull_enum_rows_or_not_found:
  "((\<exists>r\<in>set df. cell_eq (type_name r) enum_name) \<longrightarrow>
      pull_enum df enum_name = Inr (filter (\<lambda>r. cell_eq (type_name r) enum_name) df)) \<and>
   ((\<forall>r\<in>set df. \<not> cell_eq (type_name r) enum_name) \<longrightarrow>
      pull_enum df enum_name = Inl (ValueError_enum_not_found enum_name))"
  by (simp add: pull_enum_cases)

text \<open>C5, at \<open>repeat_table\<close> for the type \<open>Size\<close> (one row) and the absent type \<open>Shape\<close>,
  and at \<open>blank_type_table\<close> for NaN, which no cell equals.\<close>

theorem pull_enum_rows_or_not_found_witness:
  "(\<exists>r\<in>set repeat_table. cell_eq (type_name r) (PStr ''Size'')) \<and>
   pull_enum repeat_table (PStr ''Size'') =
     Inr [\<lparr>type_name = PStr ''Size'', enum_col = PStr ''S'',
           enum_definition = PStr ''small'', source = PStr ''N/A'', term_id = PInt 7\<rparr>] \<and>
   pull_enum repeat_table (PStr ''Shape'') = Inl (ValueError_enum_not_found (PStr ''Shape'')) \<and>
   pull_enum blank_type_table (PFloat NaN) = Inl (ValueError_enum_not_found (PFloat NaN))"
proof -
  have present: "\<exists>r\<in>set repeat_table. cell_eq (type_name r) (PStr ''Size'')"
    by code_simp
  have rows: "filter (\<lambda>r. cell_eq (type_name r) (PStr ''Size'')) repeat_table =
     [\<lparr>type_name = PStr ''Size'', enum_col = PStr ''S'',
       enum_definition = PStr ''small'', source = PStr ''N/A'', term_id = PInt 7\<rparr>]"
    by code_simp
  have absent: "\<forall>r\<in>set repeat_table. \<not> cell_eq (type_name r) (PStr ''Shape'')"
    by code_simp
  have blank: "\<forall>r\<in>set blank_type_table. \<not> cell_eq (type_name r) (PFloat NaN)"
    by code_simp
  from pull_enum_rows_or_not_found [of repeat_table "PStr ''Size''"]
    pull_enum_rows_or_not_found [of repeat_table "PStr ''Shape''"]
    pull_enum_rows_or_not_found [of blank_type_table "PFloat NaN"]
    present rows absent blank
  show ?thesis by simp
qed

text \<open>
  \<^bold>\<open>C6\<close>. In a run of \<^verbatim>\<open>process_enums\<close> over the names \<open>names\<close>:
  \<^item> the document is written once, as it is at the end of the loop, when no exception
    was raised, and not at all otherwise;
  \<^item> no exception is raised exactly when the entry of every name could be built;
  \<^item> when the entry of a name cannot be built and those of the names before it can,
    the run ends with that name's exception, nothing is written, and the in-memory
    document is what the names before it made of it: no later name is processed.
\<close>

theorem no_write_on_error:
  "written (process_enums enum_df names loaded) =
     (if raised (process_enums enum_df names loaded) = None
      then [definitions_dict (process_enums enum_df names loaded)] else []) \<and>
   (raised (process_enums enum_df names loaded) = None \<longleftrightarrow>
      (\<forall>n\<in>set names. \<exists>entry. construct_enum_term_yaml_entry enum_df n PNone = Inr entry)) \<and>
   (\<forall>before n rest e.
      names = before @ n # rest \<and>
      (\<forall>m\<in>set before. \<exists>entry. construct_enum_term_yaml_entry enum_df m PNone = Inr entry) \<and>
      construct_enum_term_yaml_entry enum_df n PNone = Inl e \<longrightarrow>
      raised (process_enums enum_df names loaded) = Some e \<and>
      written (process_enums enum_df names loaded) = [] \<and>
      definitions_dict (process_enums enum_df names loaded) =
        definitions_dict (process_enums enum_df before loaded))"
proof -
  have stop: "raised (process_enums enum_df names loaded) = Some e \<and>
      written (process_enums enum_df names loaded) = [] \<and>
      definitions_dict (process_enums enum_df names loaded) =
        definitions_dict (process_enums enum_df before loaded)"
    if "names = before @ n # rest"
      and "\<forall>m\<in>set before. \<exists>entry. construct_enum_term_yaml_entry enum_df m PNone = Inr entry"
      and "construct_enum_term_yaml_entry enum_df n PNone = Inl e"
    for before n rest e
  proof -
    from that(2) have "fst (merge_loop enum_df before loaded) = None"
      by (simp add: merge_loop_completes_iff)
    then obtain d' where "merge_loop enum_df before loaded = (None, d')"
      by (cases "merge_loop enum_df before loaded") simp
    with that(1,3) show ?thesis
      by (simp add: process_enums_fields merge_loop_append)
  qed
  show ?thesis
    using stop by (simp add: process_enums_fields merge_loop_completes_iff)
qed

text \<open>C6, at \<open>blank_type_table\<close> with the loop taking \<open>Color\<close> before NaN, and at
  \<open>color_table\<close>, where the run completes and writes once.\<close>

theorem no_write_on_error_witness:
  "raised (process_enums blank_type_table [PStr ''Color'', PFloat NaN] old_document) =
     Some (ValueError_enum_not_found (PFloat NaN)) \<and>
   written (process_enums blank_type_table [PStr ''Color'', PFloat NaN] old_document) = [] \<and>
   definitions_dict (process_enums blank_type_table [PStr ''Color'', PFloat NaN] old_document) =
     definitions_dict (process_enums blank_type_table [PStr ''Color''] old_document) \<and>
   raised (process_enums color_table [PStr ''Color''] old_document) = None \<and>
   written (process_enums color_table [PStr ''Color''] old_document) =
     [definitions_dict (process_enums color_table [PStr ''Color''] old_document)]"
proof -
  have color: "\<forall>m\<in>set [PStr ''Color'']. \<exists>entry.
                 construct_enum_term_yaml_entry blank_type_table m PNone = Inr entry"
    by (simp add: entry_built_iff) code_simp
  have blank: "construct_enum_term_yaml_entry blank_type_table (PFloat NaN) PNone =
                 Inl (ValueError_enum_not_found (PFloat NaN))"
    by code_simp
  have ok: "\<forall>n\<in>set [PStr ''Color'']. \<exists>entry.
                 construct_enum_term_yaml_entry color_table n PNone = Inr entry"
    by (simp add: entry_built_iff) code_simp
  from no_write_on_error [of blank_type_table "[PStr ''Color'', PFloat NaN]" old_document]
  have stop: "raised (process_enums blank_type_table [PStr ''Color'', PFloat NaN] old_document) =
       Some (ValueError_enum_not_found (PFloat NaN)) \<and>
     written (process_enums blank_type_table [PStr ''Color'', PFloat NaN] old_document) = [] \<and>
     definitions_dict (process_enums blank_type_table [PStr ''Color'', PFloat NaN] old_document) =
       definitions_dict (process_enums blank_type_table [PStr ''Color''] old_document)"
    using color blank
    by (elim conjE allE [of _ "[PStr ''Color'']"] allE [of _ "PFloat NaN"] allE [of _ "[]"]
          allE [of _ "ValueError_enum_not_found (PFloat NaN)"]) simp
  from no_write_on_error [of color_table "[PStr ''Color'']" old_document] ok
  have "raised (process_enums color_table [PStr ''Color''] old_document) = None \<and>
   written (process_enums color_table [PStr ''Color''] old_document) =
     [definitions_dict (process_enums color_table [PStr ''Color''] old_document)]"
    by simp
  with stop show ?thesis by simp
qed

text \<open>
  \<^bold>\<open>C7\<close>. For a type with at least one row, \<^verbatim>\<open>get_enum_list\<close> returns the
  \<^verbatim>\<open>enum\<close> cells of the rows of that type, in table order, each row giving one element.
\<close>

theorem get_enum_list_row_order:
  assumes "\<exists>r\<in>set df. cell_eq (type_name r) enum_name"
  shows "get_enum_list df enum_name =
           Inr (map enum_col (filter (\<lambda>r. cell_eq (type_name r) enum_name) df))"
  using assms by (simp add: get_enum_list_def pull_enum_cases col_to_list_def)

text \<open>C7, at \<open>repeat_table\<close>: the terms of \<open>Color\<close> come in row order, \<open>RED\<close> twice.\<close>

theorem get_enum_list_row_order_witness:
  "(\<exists>r\<in>set repeat_table. cell_eq (type_name r) (PStr ''Color'')) \<and>
   get_enum_list repeat_table (PStr ''Color'') = Inr [PStr ''RED'', PStr ''BLUE'', PStr ''RED'']"
proof -
  have present: "\<exists>r\<in>set repeat_table. cell_eq (type_name r) (PStr ''Color'')"
    by code_simp
  have terms: "map enum_col (filter (\<lambda>r. cell_eq (type_name r) (PStr ''Color'')) repeat_table) =
                 [PStr ''RED'', PStr ''BLUE'', PStr ''RED'']"
    by code_simp
  from get_enum_list_row_order [OF present] present terms show ?thesis by simp
qed

text \<open>
  \<^bold>\<open>C8\<close>. Each of the three lookups returns its column's cell of the first row, in
  table order, whose \<^verbatim>\<open>type_name\<close> and \<^verbatim>\<open>enum\<close> both equal the arguments. When there
  is no such row it raises: \<^verbatim>\<open>IndexError\<close> when the type has rows, \<^verbatim>\<open>ValueError\<close>
  when it has none.
\<close>

theorem lookups_first_match:
  "get_enum_definition df n t =
     (case find (\<lambda>r. cell_eq (type_name r) n \<and> cell_eq (enum_col r) t) df of
        Some r \<Rightarrow> Inr (enum_definition r)
      | None \<Rightarrow> Inl (if \<exists>r\<in>set df. cell_eq (type_name r) n
                     then IndexError_term_not_found t n
                     else ValueError_enum_not_found n)) \<and>
   get_enum_source df n t =
     (case find (\<lambda>r. cell_eq (type_name r) n \<and> cell_eq (enum_col r) t) df of
        Some r \<Rightarrow> Inr (source r)
      | None \<Rightarrow> Inl (if \<exists>r\<in>set df. cell_eq (type_name r) n
                     then IndexError_term_not_found t n
                     else ValueError_enum_not_found n)) \<and>
   get_enum_term_id df n t =
     (case find (\<lambda>r. cell_eq (type_name r) n \<and> cell_eq (enum_col r) t) df of
        Some r \<Rightarrow> Inr (term_id r)
      | None \<Rightarrow> Inl (if \<exists>r\<in>set df. cell_eq (type_name r) n
                     then IndexError_term_not_found t n
                     else ValueError_enum_not_found n))"
  unfolding get_enum_definition_def get_enum_source_def get_enum_term_id_def
  by (simp only: get_enum_field_find)

text \<open>C8, at \<open>repeat_table\<close>: the lookups for \<open>RED\<close> read the first row, not the fourth;
  an unknown term and an unknown type give the two errors.\<close>

theorem lookups_first_match_witness:
  "get_enum_definition repeat_table (PStr ''Color'') (PStr ''RED'') = Inr (PStr ''red color'') \<and>
   get_enum_source repeat_table (PStr ''Color'') (PStr ''RED'') = Inr (PStr '''') \<and>
   get_enum_term_id repeat_table (PStr ''Color'') (PStr ''RED'') = Inr (PStr ''T1'') \<and>
   get_enum_definition repeat_table (PStr ''Color'') (PStr ''S'') =
     Inl (IndexError_term_not_found (PStr ''S'') (PStr ''Color'')) \<and>
   get_enum_definition repeat_table (PStr ''Shape'') (PStr ''RED'') =
     Inl (ValueError_enum_not_found (PStr ''Shape''))"
proof -
  have hit: "find (\<lambda>r. cell_eq (type_name r) (PStr ''Color'') \<and> cell_eq (enum_col r) (PStr ''RED''))
               repeat_table = Some (repeat_table ! 0)"
    by code_simp
  have first: "enum_definition (repeat_table ! 0) = PStr ''red color''"
    "source (repeat_table ! 0) = PStr ''''" "term_id (repeat_table ! 0) = PStr ''T1''"
    by code_simp+
  have miss: "find (\<lambda>r. cell_eq (type_name r) (PStr ''Color'') \<and> cell_eq (enum_col r) (PStr ''S''))
               repeat_table = None"
    "find (\<lambda>r. cell_eq (type_name r) (PStr ''Shape'') \<and> cell_eq (enum_col r) (PStr ''RED''))
               repeat_table = None"
    by code_simp+
  have types: "\<exists>r\<in>set repeat_table. cell_eq (type_name r) (PStr ''Color'')"
    "\<not> (\<exists>r\<in>set repeat_table. cell_eq (type_name r) (PStr ''Shape''))"
    by code_simp+
  from lookups_first_match [of repeat_table "PStr ''Color''" "PStr ''RED''"]
    lookups_first_match [of repeat_table "PStr ''Color''" "PStr ''S''"]
    lookups_first_match [of repeat_table "PStr ''Shape''" "PStr ''RED''"]
    hit first miss types
  show ?thesis by simp
qed

text \<open>\<^bold>\<open>C9\<close>. The entry built for \<open>Color\<close> from the two-row table of the scenario.\<close>

theorem color_scenario:
  "construct_enum_term_yaml_entry color_table (PStr ''Color'') PNone =
     Inr (PDict
       [(PStr ''description'', PNone),
        (PStr ''enum'', PList [PStr ''RED'', PStr ''BLUE'']),
        (PStr ''enumDef'', PList
          [PDict [(PStr ''enumeration'', PStr ''RED''),
                  (PStr ''definition'', PStr ''red color''),
                  (PStr ''term_id'', PStr ''T1'')],
           PDict [(PStr ''enumeration'', PStr ''BLUE''),
                  (PStr ''source'', PStr ''src2'')]])])"
  by code_simp

text \<open>
  \<^bold>\<open>C10\<close> (as amended). For a type with at least one row,
  \<^verbatim>\<open>update_definitions_with_enums.py\<close> returns the entry that \<^verbatim>\<open>add_enum_to_def.py\<close>
  returns when no row of the type has a missing \<^verbatim>\<open>enum\<close> cell, and raises
  \<^verbatim>\<open>IndexError\<close> when one has. \<^verbatim>\<open>add_enum_to_def.py\<close> returns an entry in both cases:
  its \<^verbatim>\<open>enum\<close> list holds the \<^verbatim>\<open>enum\<close> cells of the rows of the type, its \<^verbatim>\<open>enumDef\<close>
  list is as long, and the record of every missing term holds \<^verbatim>\<open>enumeration\<close> and
  nothing else.
\<close>

theorem two_scripts_same_entry:
  assumes "\<exists>r\<in>set df. cell_eq (type_name r) enum_name"
  shows "upd_construct_enum_term_yaml_entry df enum_name description =
           (if \<exists>r\<in>set df. cell_eq (type_name r) enum_name \<and> is_na (enum_col r)
            then Inl IndexError_out_of_bounds
            else construct_enum_term_yaml_entry df enum_name description) \<and>
         (\<exists>enum_term_list enum_def_list.
            construct_enum_term_yaml_entry df enum_name description =
              Inr (PDict [(PStr ''description'', description),
                          (PStr ''enum'', PList enum_term_list),
                          (PStr ''enumDef'', PList enum_def_list)]) \<and>
            enum_term_list =
              map enum_col (filter (\<lambda>r. cell_eq (type_name r) enum_name) df) \<and>
            length enum_def_list = length enum_term_list \<and>
            (\<forall>i<length enum_term_list.
               is_na (enum_term_list ! i) \<longrightarrow>
               enum_def_list ! i = PDict [(PStr ''enumeration'', enum_term_list ! i)]))"
proof -
  let ?ts = "upd_get_enum_list df enum_name"
  have na: "(\<exists>t\<in>set ?ts. is_na t) \<longleftrightarrow>
            (\<exists>r\<in>set df. cell_eq (type_name r) enum_name \<and> is_na (enum_col r))"
    by (auto simp: upd_get_enum_list_def upd_pull_enum_def col_to_list_def)
  have "upd_construct_enum_def df enum_name =
          (if \<exists>r\<in>set df. cell_eq (type_name r) enum_name \<and> is_na (enum_col r)
           then Inl IndexError_out_of_bounds
           else Inr (map (enumdef_of df enum_name) ?ts))"
    unfolding upd_construct_enum_def_def
    by (subst upd_enum_def_loop_terms) (simp_all add: na)
  with assms have same: "upd_construct_enum_term_yaml_entry df enum_name description =
           (if \<exists>r\<in>set df. cell_eq (type_name r) enum_name \<and> is_na (enum_col r)
            then Inl IndexError_out_of_bounds
            else construct_enum_term_yaml_entry df enum_name description)"
    by (simp add: upd_construct_enum_term_yaml_entry_def construct_enum_term_yaml_entry_def
          construct_enum_def_map get_enum_list_upd)
  from assms have entry: "construct_enum_term_yaml_entry df enum_name description =
      Inr (PDict [(PStr ''description'', description), (PStr ''enum'', PList ?ts),
                  (PStr ''enumDef'', PList (map (enumdef_of df enum_name) ?ts))])"
    by (simp add: construct_enum_term_yaml_entry_def construct_enum_def_map get_enum_list_upd)
  have ts: "?ts = map enum_col (filter (\<lambda>r. cell_eq (type_name r) enum_name) df)"
    by (simp add: upd_get_enum_list_def upd_pull_enum_def col_to_list_def)
  have only: "\<forall>i<length ?ts. is_na (?ts ! i) \<longrightarrow>
                map (enumdef_of df enum_name) ?ts ! i = PDict [(PStr ''enumeration'', ?ts ! i)]"
    by (simp add: enumdef_of_missing_term)
  have "\<exists>enum_term_list enum_def_list.
            construct_enum_term_yaml_entry df enum_name description =
              Inr (PDict [(PStr ''description'', description),
                          (PStr ''enum'', PList enum_term_list),
                          (PStr ''enumDef'', PList enum_def_list)]) \<and>
            enum_term_list =
              map enum_col (filter (\<lambda>r. cell_eq (type_name r) enum_name) df) \<and>
            length enum_def_list = length enum_term_list \<and>
            (\<forall>i<length enum_term_list.
               is_na (enum_term_list ! i) \<longrightarrow>
               enum_def_list ! i = PDict [(PStr ''enumeration'', enum_term_list ! i)])"
    by (rule exI [of _ ?ts], rule exI [of _ "map (enumdef_of df enum_name) ?ts"])
       (use entry ts only in simp)
  with same show ?thesis by simp
qed

text \<open>C10, at \<open>color_table\<close> (the same entry) and at \<open>blank_term_table\<close> (the older script
  raises; in the entry of the newer one the record of the NaN term holds only
  \<^verbatim>\<open>enumeration\<close>).\<close>

theorem two_scripts_same_entry_witness:
  "(\<exists>r\<in>set color_table. cell_eq (type_name r) (PStr ''Color'')) \<and>
   upd_construct_enum_term_yaml_entry color_table (PStr ''Color'') PNone =
     construct_enum_term_yaml_entry color_table (PStr ''Color'') PNone \<and>
   (\<exists>r\<in>set blank_term_table. cell_eq (type_name r) (PStr ''Color'') \<and> is_na (enum_col r)) \<and>
   upd_construct_enum_term_yaml_entry blank_term_table (PStr ''Color'') PNone =
     Inl IndexError_out_of_bounds \<and>
   (\<exists>enum_def_list.
      construct_enum_term_yaml_entry blank_term_table (PStr ''Color'') PNone =
        Inr (PDict [(PStr ''description'', PNone),
                    (PStr ''enum'', PList [PStr ''RED'', PFloat NaN]),
                    (PStr ''enumDef'', PList enum_def_list)]) \<and>
      length enum_def_list = 2 \<and>
      enum_def_list ! 1 = PDict [(PStr ''enumeration'', PFloat NaN)])"
proof -
  have present: "\<exists>r\<in>set color_table. cell_eq (type_name r) (PStr ''Color'')"
    "\<exists>r\<in>set blank_term_table. cell_eq (type_name r) (PStr ''Color'')"
    by code_simp+
  have full: "\<not> (\<exists>r\<in>set color_table. cell_eq (type_name r) (PStr ''Color'') \<and> is_na (enum_col r))"
    by code_simp
  have gap: "\<exists>r\<in>set blank_term_table. cell_eq (type_name r) (PStr ''Color'') \<and> is_na (enum_col r)"
    by code_simp
  have terms: "map enum_col (filter (\<lambda>r. cell_eq (type_name r) (PStr ''Color'')) blank_term_table) =
                 [PStr ''RED'', PFloat NaN]"
    by code_simp
  note colors = two_scripts_same_entry [OF present(1), of PNone]
  note blanks = two_scripts_same_entry [OF present(2), of PNone]
  from colors full have a: "upd_construct_enum_term_yaml_entry color_table (PStr ''Color'') PNone =
     construct_enum_term_yaml_entry color_table (PStr ''Color'') PNone"
    by simp
  from blanks gap have b: "upd_construct_enum_term_yaml_entry blank_term_table (PStr ''Color'') PNone =
     Inl IndexError_out_of_bounds"
    by simp
  from blanks obtain ts ds where
    entry: "construct_enum_term_yaml_entry blank_term_table (PStr ''Color'') PNone =
        Inr (PDict [(PStr ''description'', PNone), (PStr ''enum'', PList ts),
                    (PStr ''enumDef'', PList ds)])"
    and ts: "ts = map enum_col (filter (\<lambda>r. cell_eq (type_name r) (PStr ''Color'')) blank_term_table)"
    and len: "length ds = length ts"
    and only: "\<forall>i<length ts. is_na (ts ! i) \<longrightarrow> ds ! i = PDict [(PStr ''enumeration'', ts ! i)]"
    by blast
  from ts terms have ts2: "ts = [PStr ''RED'', PFloat NaN]"
    by simp
  with only have "ds ! 1 = PDict [(PStr ''enumeration'', PFloat NaN)]"
    by simp
  with entry len ts2 have c: "\<exists>enum_def_list.
      construct_enum_term_yaml_entry blank_term_table (PStr ''Color'') PNone =
        Inr (PDict [(PStr ''description'', PNone),
                    (PStr ''enum'', PList [PStr ''RED'', PFloat NaN]),
                    (PStr ''enumDef'', PList enum_def_list)]) \<and>
      length enum_def_list = 2 \<and>
      enum_def_list ! 1 = PDict [(PStr ''enumeration'', PFloat NaN)]"
    by simp
  from present(1) gap a b c show ?thesis by simp
qed

text \<open>
  C10 as first stated (the same entry for every type with a row) fails on
  \<open>blank_term_table\<close>: the lookup for the NaN term finds no row; \<^verbatim>\<open>add_enum_to_def.py\<close>
  catches the exception and returns an entry, the older script does not catch it.
\<close>

theorem two_scripts_differ:
  "construct_enum_term_yaml_entry blank_term_table (PStr ''Color'') PNone =
     Inr (PDict
       [(PStr ''description'', PNone),
        (PStr ''enum'', PList [PStr ''RED'', PFloat NaN]),
        (PStr ''enumDef'', PList
          [PDict [(PStr ''enumeration'', PStr ''RED''),
                  (PStr ''definition'', PStr ''red color''),
                  (PStr ''term_id'', PStr ''T1'')],
           PDict [(PStr ''enumeration'', PFloat NaN)]])]) \<and>
   upd_construct_enum_term_yaml_entry blank_term_table (PStr ''Color'') PNone =
     Inl IndexError_out_of_bounds \<and>
   cell_eq (type_name (blank_term_table ! 0)) (PStr ''Color'')"
  by code_simp

end
